theory Spec2Isabelle
  imports Complex_Main "HOL-Library.Word"
begin

section \<open>Numbers\<close>

text \<open>
  The detector computes with C++ \<open>int\<close>, \<open>float\<close> and \<open>double\<close>. Integers are modelled
  as \<open>int\<close>: for a non-empty image every integer the letterbox computes lies between
  zero and an entry of \<open>new_shape\<close>, so 32-bit wrap-around does not occur. A
  floating-point value is modelled as the rational number it denotes (finite, not
  NaN); comparisons are then exact, and arithmetic is carried out without rounding
  error.
\<close>

text \<open>C's \<open>round\<close>: to the nearest integer, halfway cases away from zero.\<close>

definition cround :: "rat \<Rightarrow> int" where
  "cround x = (if 0 \<le> x then \<lfloor>x + 1 / 2\<rfloor> else \<lceil>x - 1 / 2\<rceil>)"

section \<open>Letterbox\<close>

text \<open>\<open>INPUT_W\<close>, \<open>INPUT_H\<close>, \<open>NUM_CLASSES\<close>, \<open>NUM_COLORS\<close>.\<close>

definition INPUT_W :: int where "INPUT_W = 416"
definition INPUT_H :: int where "INPUT_H = 416"
definition NUM_CLASSES :: nat where "NUM_CLASSES = 8"
definition NUM_COLORS :: nat where "NUM_COLORS = 4"

text \<open>\<open>Eigen::Matrix3f\<close>, row by row.\<close>

record Matrix3f =
  m00 :: rat  m01 :: rat  m02 :: rat
  m10 :: rat  m11 :: rat  m12 :: rat
  m20 :: rat  m21 :: rat  m22 :: rat

text \<open>
  The local variables of \<open>letterbox\<close>, in the order the function computes them
  (lines 33 to 57), and the matrix it writes (lines 63 to 65). \<open>new_shape\<close> is the
  vector the function reads at indices 0 and 1. For an image without rows or columns
  the C++ divides by zero; \<open>push_input\<close> rejects such a frame before the letterbox, and
  the properties below are stated for non-empty images.
\<close>

record letterbox_locals =
  scale :: rat
  resize_h :: int
  resize_w :: int
  pad_h :: int
  pad_w :: int
  half_h :: rat
  half_w :: rat
  top :: int
  bottom :: int
  left :: int
  right :: int

definition letterbox_vars :: "int \<Rightarrow> int \<Rightarrow> int list \<Rightarrow> letterbox_locals" where
  "letterbox_vars img_h img_w new_shape =
     (let scale = min (of_int (new_shape ! 1) * 1 / of_int img_h)
                      (of_int (new_shape ! 0) * 1 / of_int img_w);
          resize_h = cround (of_int img_h * scale);
          resize_w = cround (of_int img_w * scale);
          pad_h = new_shape ! 1 - resize_h;
          pad_w = new_shape ! 0 - resize_w;
          half_h = of_int pad_h * 1 / 2;
          half_w = of_int pad_w * 1 / 2;
          top = cround (half_h - 1 / 10);
          bottom = cround (half_h + 1 / 10);
          left = cround (half_w - 1 / 10);
          right = cround (half_w + 1 / 10)
      in \<lparr> scale = scale, resize_h = resize_h, resize_w = resize_w,
           pad_h = pad_h, pad_w = pad_w, half_h = half_h, half_w = half_w,
           top = top, bottom = bottom, left = left, right = right \<rparr>)"

definition letterbox_matrix :: "letterbox_locals \<Rightarrow> Matrix3f" where
  "letterbox_matrix v =
     \<lparr> m00 = 1 / scale v, m01 = 0, m02 = - half_w v / scale v,
       m10 = 0, m11 = 1 / scale v, m12 = - half_h v / scale v,
       m20 = 0, m21 = 0, m22 = 1 \<rparr>"

text \<open>
  A homogeneous column vector times the matrix, as in
  \<open>apex_dst = transform_matrix * apex_norm\<close> (one column of the product).
\<close>

definition mat_mul_col :: "Matrix3f \<Rightarrow> rat \<times> rat \<times> rat \<Rightarrow> rat \<times> rat \<times> rat" where
  "mat_mul_col M c =
     (case c of (x, y, w) \<Rightarrow>
        (m00 M * x + m01 M * y + m02 M * w,
         m10 M * x + m11 M * y + m12 M * w,
         m20 M * x + m21 M * y + m22 M * w))"

section \<open>Images\<close>

text \<open>
  A \<open>cv::Mat\<close> of 8-bit, 3-channel pixels: the header fields \<open>rows\<close> and \<open>cols\<close>
  and the pixel data, row by row. An empty list of pixel rows stands for a null data
  pointer. \<open>cv::Mat::empty\<close> is true when there is no data or no element.
\<close>

type_synonym pixel = "8 word \<times> 8 word \<times> 8 word"

record Mat =
  rows :: int
  cols :: int
  pix :: "pixel list list"

definition mat_empty :: "Mat \<Rightarrow> bool" where
  "mat_empty m = (pix m = [] \<or> rows m * cols m = 0)"

definition channel :: "nat \<Rightarrow> pixel \<Rightarrow> 8 word" where
  "channel c p = (case p of (c0, c1, c2) \<Rightarrow> if c = 0 then c0 else if c = 1 then c1 else c2)"

text \<open>
  Modelled from the spec: \<open>cv::copyMakeBorder\<close> is library code. Step 4 of the
  letterbox pads the resized image on all four sides with a constant fill value.
\<close>

definition copyMakeBorder :: "Mat \<Rightarrow> int \<Rightarrow> int \<Rightarrow> int \<Rightarrow> int \<Rightarrow> pixel \<Rightarrow> Mat" where
  "copyMakeBorder src t b l r val =
     (let w = cols src + l + r;
          fill = replicate (nat w) val
      in \<lparr> rows = rows src + t + b, cols = w,
           pix = replicate (nat t) fill
               @ map (\<lambda>row. replicate (nat l) val @ row @ replicate (nat r) val) (pix src)
               @ replicate (nat b) fill \<rparr>)"

text \<open>
  \<open>letterbox\<close>. The interpolating \<open>cv::resize\<close> is library code and is taken as the
  parameter \<open>cv_resize img w h\<close>.
\<close>

definition letterbox :: "(Mat \<Rightarrow> int \<Rightarrow> int \<Rightarrow> Mat) \<Rightarrow> Mat \<Rightarrow> int list \<Rightarrow> Mat \<times> Matrix3f" where
  "letterbox cv_resize img new_shape =
     (let v = letterbox_vars (rows img) (cols img) new_shape;
          resized_img = cv_resize img (resize_w v) (resize_h v);
          transform_matrix = letterbox_matrix v;
          resized_img = copyMakeBorder resized_img (top v) (bottom v) (left v) (right v)
                          (114, 114, 114)
      in (resized_img, transform_matrix))"

section \<open>Vectors with size and capacity\<close>

text \<open>
  A \<open>std::vector\<close>: its size and its allocated storage, one slot per unit of capacity
  (\<open>None\<close> is a slot never written). \<open>reserve\<close> grows the storage and leaves the size
  alone. \<open>operator[]\<close> does not check its index: a store at an index below the
  capacity lands in the slot, and the size stays as it is. A store is in bounds when
  its index is below the size. The elements of the vector are the first \<open>vsize\<close> slots.
\<close>

record 'a vec =
  vsize :: nat
  slots :: "'a option list"

definition vec_new :: "'a vec" where
  "vec_new = \<lparr> vsize = 0, slots = [] \<rparr>"

definition capacity :: "'a vec \<Rightarrow> nat" where
  "capacity v = length (slots v)"

definition reserve :: "'a vec \<Rightarrow> nat \<Rightarrow> 'a vec" where
  "reserve v n =
     (if capacity v < n then v\<lparr> slots := slots v @ replicate (n - capacity v) None \<rparr> else v)"

text \<open>The detector never stores at or beyond the capacity; such a store changes nothing here.\<close>

definition vec_store :: "'a vec \<Rightarrow> nat \<Rightarrow> 'a \<Rightarrow> 'a vec" where
  "vec_store v i a = v\<lparr> slots := (slots v)[i := Some a] \<rparr>"

definition in_bounds :: "'a vec \<Rightarrow> nat \<Rightarrow> bool" where
  "in_bounds v i = (i < vsize v)"

definition vec_elems :: "'a vec \<Rightarrow> 'a list" where
  "vec_elems v = List.map_filter (\<lambda>s. s) (take (vsize v) (slots v))"

section \<open>Decoding the output tensor\<close>

type_synonym Point2f = "rat \<times> rat"

datatype Rect = Rect (rect_x: int) (rect_y: int) (rect_width: int) (rect_height: int)

text \<open>
  \<open>ArmorObject\<close> is declared in a header outside the sources; the fields are the
  ones \<open>generate_proposals\<close> assigns. The two enumerations are kept as the integer
  the code casts from.
\<close>

record ArmorObject =
  pts :: "Point2f vec"
  box :: Rect
  color :: int
  number :: int
  prob :: rat

text \<open>
  Modelled from the spec: \<open>cv::minMaxLoc\<close> is library code. Section 4.2 takes the
  arg-max of a score range, the first maximal index on a tie.
\<close>

fun max_loc_from :: "nat \<Rightarrow> rat \<Rightarrow> nat \<Rightarrow> rat list \<Rightarrow> nat" where
  "max_loc_from best best_val i [] = best"
| "max_loc_from best best_val i (a # as) =
     (if best_val < a then max_loc_from i a (Suc i) as
      else max_loc_from best best_val (Suc i) as)"

definition max_loc :: "rat list \<Rightarrow> int" where
  "max_loc as = (case as of [] \<Rightarrow> - 1 | a # rest \<Rightarrow> int (max_loc_from 0 a 1 rest))"

text \<open>
  Modelled from the spec: \<open>cv::boundingRect\<close> is library code. Section 4.2 derives the
  tightest axis-aligned box enclosing the points; the box has integer pixel
  coordinates, and an empty point list has the empty box.
\<close>

definition boundingRect :: "Point2f list \<Rightarrow> Rect" where
  "boundingRect ps =
     (if ps = [] then Rect 0 0 0 0
      else let xmin = \<lfloor>Min (set (map fst ps))\<rfloor>; ymin = \<lfloor>Min (set (map snd ps))\<rfloor>;
               xmax = \<lfloor>Max (set (map fst ps))\<rfloor>; ymax = \<lfloor>Max (set (map snd ps))\<rfloor>
           in Rect xmin ymin (xmax - xmin + 1) (ymax - ymin + 1))"

text \<open>
  The output tensor, one list per row; \<open>output_buffer.at<float>(i, j)\<close> is
  \<open>output_buffer ! i ! j\<close>, and \<open>row(i).colRange(a, b)\<close> is \<open>take (b - a) (drop a row)\<close>.
  The compiled-model contract fixes the row width at 9 + NUM_COLORS + NUM_CLASSES.
\<close>

type_synonym tensor = "rat list list"

definition wf_tensor :: "tensor \<Rightarrow> bool" where
  "wf_tensor t = list_all (\<lambda>row. length row = 9 + NUM_COLORS + NUM_CLASSES) t"

text \<open>
  Lines 121 to 128: the successive states of \<open>obj.pts\<close>. State \<open>k\<close> for \<open>k < 4\<close> is the
  vector at the moment \<open>obj.pts[k]\<close> is assigned; state 4 is the vector afterwards.
\<close>

definition obj_pts_states :: "Point2f \<Rightarrow> Point2f \<Rightarrow> Point2f \<Rightarrow> Point2f \<Rightarrow> Point2f vec list" where
  "obj_pts_states p0 p1 p2 p3 =
     (let v0 = reserve vec_new 4;
          v1 = vec_store v0 0 p0;
          v2 = vec_store v1 1 p1;
          v3 = vec_store v2 2 p2;
          v4 = vec_store v3 3 p3
      in [v0, v1, v2, v3, v4])"

text \<open>Lines 90 to 135: the body of the loop for a row that passed the cutoff.\<close>

definition decode_row :: "rat list \<Rightarrow> Matrix3f \<Rightarrow> rat \<Rightarrow> ArmorObject \<times> Rect" where
  "decode_row row transform_matrix confidence =
     (let color_scores = take NUM_COLORS (drop 9 row);
          num_scores = take NUM_CLASSES (drop (9 + NUM_COLORS) row);
          color_id = max_loc color_scores;
          num_id = max_loc num_scores;
          x_1 = row ! 0; y_1 = row ! 1; x_2 = row ! 2; y_2 = row ! 3;
          x_3 = row ! 4; y_3 = row ! 5; x_4 = row ! 6; y_4 = row ! 7;
          apex_dst = map (mat_mul_col transform_matrix)
                       [(x_1, y_1, 1), (x_2, y_2, 1), (x_3, y_3, 1), (x_4, y_4, 1)];
          pt = (\<lambda>j. case apex_dst ! j of (a, b, c) \<Rightarrow> (a, b));
          obj_pts = obj_pts_states (pt 0) (pt 1) (pt 2) (pt 3) ! 4;
          rect = boundingRect (vec_elems obj_pts)
      in (\<lparr> pts = obj_pts, box = rect, color = color_id, number = num_id,
            prob = confidence \<rparr>, rect))"

fun generate_proposals ::
  "ArmorObject list \<Rightarrow> rat list \<Rightarrow> Rect list \<Rightarrow> tensor \<Rightarrow> Matrix3f \<Rightarrow> rat
     \<Rightarrow> ArmorObject list \<times> rat list \<times> Rect list" where
  "generate_proposals output_objs scores rects [] transform_matrix conf_threshold =
     (output_objs, scores, rects)"
| "generate_proposals output_objs scores rects (row # output_buffer) transform_matrix
       conf_threshold =
     (let confidence = row ! 8
      in if confidence < conf_threshold
         then generate_proposals output_objs scores rects output_buffer transform_matrix
                conf_threshold
         else (case decode_row row transform_matrix confidence of
                 (obj, rect) \<Rightarrow>
                   generate_proposals (output_objs @ [obj]) (scores @ [confidence])
                     (rects @ [rect]) output_buffer transform_matrix conf_threshold))"

section \<open>Suppression filter\<close>

text \<open>
  Modelled from the spec: \<open>cv::dnn::NMSBoxes\<close> is library code. Section 4.3: sort the
  candidates by descending confidence; repeatedly take the highest-confidence remaining
  candidate, emit it, and discard every remaining candidate whose intersection over
  union with it exceeds the overlap threshold; stop once no candidates remain or the
  emitted count reaches the maximum. The result is the list of indices into the
  candidate list, in the order emitted. Two boxes without area are taken to coincide
  (overlap 1). The candidates entering the sort are the ones not below the confidence
  threshold, which is every candidate the decoder hands over.
\<close>

definition rect_area :: "Rect \<Rightarrow> int" where
  "rect_area r = rect_width r * rect_height r"

definition rect_inter_area :: "Rect \<Rightarrow> Rect \<Rightarrow> int" where
  "rect_inter_area a b =
     max 0 (min (rect_x a + rect_width a) (rect_x b + rect_width b) - max (rect_x a) (rect_x b))
   * max 0 (min (rect_y a + rect_height a) (rect_y b + rect_height b) - max (rect_y a) (rect_y b))"

definition rect_iou :: "Rect \<Rightarrow> Rect \<Rightarrow> rat" where
  "rect_iou a b =
     (let i = rect_inter_area a b; u = rect_area a + rect_area b - i
      in if u \<le> 0 then 1 else of_int i / of_int u)"

text \<open>
  Modelled from the spec: the greedy loop of section 4.3, on the candidates still
  remaining (sorted by descending confidence) and the indices emitted so far.
\<close>

function nms_greedy :: "Rect list \<Rightarrow> rat \<Rightarrow> int \<Rightarrow> nat list \<Rightarrow> nat list \<Rightarrow> nat list" where
  "nms_greedy bboxes nms_threshold top_k remaining indices =
     (if top_k \<le> int (length indices) then indices
      else (case remaining of
              [] \<Rightarrow> indices
            | i # rest \<Rightarrow>
                nms_greedy bboxes nms_threshold top_k
                  (filter (\<lambda>j. \<not> nms_threshold < rect_iou (bboxes ! i) (bboxes ! j)) rest)
                  (indices @ [i])))"
  by pat_completeness auto
termination
  by (relation "measure (\<lambda>(bboxes, nms_threshold, top_k, remaining, indices). length remaining)")
     (auto simp: less_Suc_eq_le)

declare nms_greedy.simps [simp del]

text \<open>
  Modelled from the spec: the filter of section 4.3, with the arguments of the call at
  lines 241 to 243 (the adaptive factor \<open>eta\<close> is 1 and has no effect).
\<close>

definition NMSBoxes :: "Rect list \<Rightarrow> rat list \<Rightarrow> rat \<Rightarrow> rat \<Rightarrow> int \<Rightarrow> nat list" where
  "NMSBoxes bboxes scores score_threshold nms_threshold top_k =
     nms_greedy bboxes nms_threshold top_k
       (sort_key (\<lambda>i. - (scores ! i))
          (filter (\<lambda>i. \<not> scores ! i < score_threshold) [0..<length scores]))
       []"

section \<open>The detector\<close>

text \<open>
  Modelled from the spec: \<open>cv::dnn::blobFromImage\<close> is library code. Section 4.4,
  tensor construction: the channel order is swapped if asked for, the pixel values are
  rescaled (mean subtracted, then multiplied by the scale factor), and the interleaved
  per-pixel layout becomes a per-channel planar layout with a leading batch dimension
  of 1: \<open>blob ! 0 ! c ! y ! x\<close>. An image that does not already have the requested size
  is resized to it first.
\<close>

type_synonym blob = "rat list list list list"

definition blobFromImage ::
  "(Mat \<Rightarrow> int \<Rightarrow> int \<Rightarrow> Mat) \<Rightarrow> Mat \<Rightarrow> rat \<Rightarrow> int \<times> int \<Rightarrow> rat \<times> rat \<times> rat \<Rightarrow> bool \<Rightarrow> blob" where
  "blobFromImage cv_resize img scalefactor dsize mean swapRB =
     (let src = (if (cols img, rows img) = dsize then img
                 else cv_resize img (fst dsize) (snd dsize));
          mean_at = (\<lambda>c. case mean of (a0, a1, a2) \<Rightarrow>
                       if c = 0 then a0 else if c = 1 then a1 else a2);
          src_channel = (\<lambda>c. if swapRB then 2 - c else c)
      in [map (\<lambda>c. map (map (\<lambda>p. scalefactor
                                 * (of_nat (unat (channel (src_channel c) p)) - mean_at c)))
                      (pix src))
            [0, 1, 2]])"

text \<open>
  The compiled model is an opaque capability: one input tensor in, one output tensor
  out. The detector holds the configuration, the compiled model (null until \<open>init\<close>
  has run) and the registered callback (possibly empty).
\<close>

type_synonym compiled_model = "blob \<Rightarrow> tensor"

record 'cb OpenVINODetector =
  conf_threshold :: rat
  top_k :: int
  nms_threshold :: rat
  compiled_model :: "compiled_model option"
  infer_callback :: "'cb option"

definition set_callback :: "'cb OpenVINODetector \<Rightarrow> 'cb option \<Rightarrow> 'cb OpenVINODetector" where
  "set_callback det callback = det\<lparr> infer_callback := callback \<rparr>"

text \<open>
  What a unit of work does to the outside: it runs the compiled model on a tensor, and
  it invokes the callback with the detections, the timestamp and the source frame.
\<close>

datatype 'cb event =
    Infer blob
  | Callback 'cb "ArmorObject list" "64 word" Mat

datatype fault = NullCompiledModel

text \<open>Lines 244 to 246: the loop that fills \<open>objs_result\<close>.\<close>

definition collect_results :: "ArmorObject list \<Rightarrow> nat list \<Rightarrow> ArmorObject list" where
  "collect_results objs_tmp indices =
     fold (\<lambda>i objs_result. objs_result @ [objs_tmp ! i]) [0..<length indices] []"

text \<open>Lines 229 to 246: decoding, filtering and the final detection list.\<close>

definition detect_indices :: "'cb OpenVINODetector \<Rightarrow> tensor \<Rightarrow> Matrix3f \<Rightarrow> nat list" where
  "detect_indices det output_buffer transform_matrix =
     (case generate_proposals [] [] [] output_buffer transform_matrix (conf_threshold det) of
        (objs_tmp, scores, rects) \<Rightarrow>
          NMSBoxes rects scores (conf_threshold det) (nms_threshold det) (top_k det))"

definition detect_objs :: "'cb OpenVINODetector \<Rightarrow> tensor \<Rightarrow> Matrix3f \<Rightarrow> ArmorObject list" where
  "detect_objs det output_buffer transform_matrix =
     (case generate_proposals [] [] [] output_buffer transform_matrix (conf_threshold det) of
        (objs_tmp, scores, rects) \<Rightarrow>
          (let indices = NMSBoxes rects scores (conf_threshold det) (nms_threshold det)
                           (top_k det)
           in collect_results objs_tmp indices))"

text \<open>Lines 206 to 209: the input tensor.\<close>

definition input_blob :: "(Mat \<Rightarrow> int \<Rightarrow> int \<Rightarrow> Mat) \<Rightarrow> Mat \<Rightarrow> blob" where
  "input_blob cv_resize resized_img =
     blobFromImage cv_resize resized_img 1 (INPUT_W, INPUT_H) (0, 0, 0) True"

text \<open>
  \<open>process_callback\<close> returns the boolean the unit of work resolves to, and the events
  it performed, in order. Dereferencing a null compiled model is a fault.
\<close>

definition process_callback ::
  "(Mat \<Rightarrow> int \<Rightarrow> int \<Rightarrow> Mat) \<Rightarrow> 'cb OpenVINODetector \<Rightarrow> Mat \<Rightarrow> Matrix3f \<Rightarrow> 64 word \<Rightarrow> Mat
     \<Rightarrow> fault + bool \<times> 'cb event list" where
  "process_callback cv_resize det resized_img transform_matrix timestamp_nanosec src_img =
     (case compiled_model det of
        None \<Rightarrow> Inl NullCompiledModel
      | Some net \<Rightarrow>
          (let blob = input_blob cv_resize resized_img;
               output_buffer = net blob;
               objs_result = detect_objs det output_buffer transform_matrix
           in (case infer_callback det of
                 Some cb \<Rightarrow>
                   Inr (True, [Infer blob, Callback cb objs_result timestamp_nanosec src_img])
               | None \<Rightarrow> Inr (False, [Infer blob]))))"

text \<open>
  \<open>push_input\<close>: the future is modelled by the value it resolves to, together with
  the events of the unit of work behind it.
\<close>

definition push_input ::
  "(Mat \<Rightarrow> int \<Rightarrow> int \<Rightarrow> Mat) \<Rightarrow> 'cb OpenVINODetector \<Rightarrow> Mat \<Rightarrow> 64 word
     \<Rightarrow> fault + bool \<times> 'cb event list" where
  "push_input cv_resize det rgb_img timestamp_nanosec =
     (if mat_empty rgb_img then Inr (False, [])
      else (case letterbox cv_resize rgb_img [INPUT_W, INPUT_H] of
              (resized_img, transform_matrix) \<Rightarrow>
                process_callback cv_resize det resized_img transform_matrix
                  timestamp_nanosec rgb_img))"

section \<open>The forward map of the letterbox\<close>

text \<open>
  A network-space point through the matrix: the homogeneous column \<open>(x, y, 1)\<close>, and
  rows 0 and 1 of the product, the way lines 113 to 128 map the four points of a row.
\<close>

definition transform_point :: "Matrix3f \<Rightarrow> Point2f \<Rightarrow> Point2f" where
  "transform_point M p =
     (case p of (x, y) \<Rightarrow> (case mat_mul_col M (x, y, 1) of (a, b, c) \<Rightarrow> (a, b)))"

text \<open>
  The spec's forward scale-then-pad map, in the spec's words: a source point is scaled
  by the uniform scale, then shifted by the padding on the leading sides (left, top).
\<close>

definition forward_scale_pad :: "letterbox_locals \<Rightarrow> Point2f \<Rightarrow> Point2f" where
  "forward_scale_pad v p =
     (case p of (x, y) \<Rightarrow> (x * scale v + of_int (left v), y * scale v + of_int (top v)))"

text \<open>The four corners of the padded network image.\<close>

definition net_corners :: "int list \<Rightarrow> Point2f list" where
  "net_corners new_shape =
     [(0, 0), (of_int (new_shape ! 0), 0), (0, of_int (new_shape ! 1)),
      (of_int (new_shape ! 0), of_int (new_shape ! 1))]"

text \<open>
  The round trip of a network-space point: through the matrix into the source image,
  and back through the forward map. The result is the displacement from the point.
\<close>

definition roundtrip_error :: "letterbox_locals \<Rightarrow> Point2f \<Rightarrow> rat \<times> rat" where
  "roundtrip_error v p =
     (case forward_scale_pad v (transform_point (letterbox_matrix v) p) of
        (x', y') \<Rightarrow> (x' - fst p, y' - snd p))"

definition within_one_pixel :: "rat \<times> rat \<Rightarrow> bool" where
  "within_one_pixel d =
     (\<bar>fst d\<bar> \<le> 1 / 2 \<and> \<bar>snd d\<bar> \<le> 1 / 2 \<and> fst d * fst d + snd d * snd d \<le> 1)"

section \<open>Sample inputs\<close>

text \<open>
  A well-formed raw row: a 10 by 5 quadrilateral whose first corner is \<open>(x0, y0)\<close>,
  confidence \<open>c\<close>, colour scores with their maximum at index 1, identity scores with
  their maximum at index 3.
\<close>

definition sample_row :: "rat \<Rightarrow> rat \<Rightarrow> rat \<Rightarrow> rat list" where
  "sample_row x0 y0 c =
     [x0, y0, x0 + 10, y0, x0 + 10, y0 + 5, x0, y0 + 5, c,
      0, 1, 0, 0,
      0, 0, 0, 1, 0, 0, 0, 0]"

definition identity_matrix :: Matrix3f where
  "identity_matrix =
     \<lparr> m00 = 1, m01 = 0, m02 = 0, m10 = 0, m11 = 1, m12 = 0, m20 = 0, m21 = 0, m22 = 1 \<rparr>"

text \<open>A stub model that answers every tensor with one row, and a stub resize.\<close>

definition stub_model :: compiled_model where
  "stub_model b = [sample_row 10 10 (9 / 10)]"

definition stub_resize :: "Mat \<Rightarrow> int \<Rightarrow> int \<Rightarrow> Mat" where
  "stub_resize img w h =
     \<lparr> rows = h, cols = w, pix = replicate (nat h) (replicate (nat w) (0, 0, 0)) \<rparr>"

definition sample_detector :: "nat OpenVINODetector" where
  "sample_detector =
     \<lparr> conf_threshold = 3 / 10, top_k = 5, nms_threshold = 1 / 2,
       compiled_model = Some stub_model, infer_callback = Some 0 \<rparr>"

definition sample_frame :: Mat where
  "sample_frame = \<lparr> rows = 2, cols = 2, pix = [[(1, 2, 3), (4, 5, 6)], [(7, 8, 9), (10, 11, 12)]] \<rparr>"

definition empty_frame :: Mat where
  "empty_frame = \<lparr> rows = 0, cols = 640, pix = [] \<rparr>"

definition gray_image :: Mat where
  "gray_image =
     \<lparr> rows = 416, cols = 416, pix = replicate 416 (replicate 416 (10, 20, 30)) \<rparr>"

section \<open>Properties of the letterbox\<close>

lemma cround_int_minus: "cround (of_int k - 1 / 10) = k"
  unfolding cround_def by (auto simp: floor_eq_iff ceiling_eq_iff)

lemma cround_int_plus: "cround (of_int k + 1 / 10) = k"
  unfolding cround_def by (auto simp: floor_eq_iff ceiling_eq_iff)

lemma cround_half_minus: "cround (of_int k + 1 / 2 - 1 / 10) = k"
  unfolding cround_def by (auto simp: floor_eq_iff ceiling_eq_iff)

lemma cround_half_plus: "cround (of_int k + 1 / 2 + 1 / 10) = k + 1"
  unfolding cround_def by (auto simp: floor_eq_iff ceiling_eq_iff)

lemma half_even: "of_int (2 * k) / 2 = (of_int k :: rat)"
  by simp

lemma half_odd: "of_int (2 * k + 1) / 2 = (of_int k + 1 / 2 :: rat)"
  by (simp add: field_simps)

lemma pad_split_cases:
  fixes p :: int
  defines "h \<equiv> (of_int p / 2 :: rat)"
  shows "(of_int (cround (h - 1 / 10)) = h \<and> cround (h + 1 / 10) = cround (h - 1 / 10))
       \<or> (of_int (cround (h - 1 / 10)) = h - 1 / 2 \<and> cround (h + 1 / 10) = cround (h - 1 / 10) + 1)"
proof (cases "even p")
  case True
  then obtain k where p: "p = 2 * k" by (auto elim: evenE)
  show ?thesis unfolding h_def p half_even cround_int_minus cround_int_plus by simp
next
  case False
  then obtain k where p: "p = 2 * k + 1" by (auto elim: oddE)
  show ?thesis unfolding h_def p half_odd cround_half_minus cround_half_plus by simp
qed

lemma pad_split_sum:
  "cround (of_int p / 2 - 1 / 10) + cround (of_int p / 2 + 1 / 10) = p"
proof -
  have "(of_int (cround (of_int p / 2 - 1 / 10) + cround (of_int p / 2 + 1 / 10)) :: rat) = of_int p"
    using pad_split_cases [of p] by (auto simp: field_simps)
  then show ?thesis by (simp only: of_int_eq_iff)
qed

lemma pad_split_le:
  "cround (of_int p / 2 - 1 / 10) \<le> cround (of_int p / 2 + 1 / 10)"
  using pad_split_cases [of p] by auto

lemma pad_split_near:
  "\<bar>of_int (cround (of_int p / 2 - 1 / 10)) - (of_int p / 2 :: rat)\<bar> \<le> 1 / 2"
  using pad_split_cases [of p] by auto

lemma letterbox_vars_fields:
  "scale (letterbox_vars img_h img_w new_shape)
     = min (of_int (new_shape ! 1) / of_int img_h) (of_int (new_shape ! 0) / of_int img_w)"
  "pad_h (letterbox_vars img_h img_w new_shape)
     = new_shape ! 1 - resize_h (letterbox_vars img_h img_w new_shape)"
  "pad_w (letterbox_vars img_h img_w new_shape)
     = new_shape ! 0 - resize_w (letterbox_vars img_h img_w new_shape)"
  "half_h (letterbox_vars img_h img_w new_shape)
     = of_int (pad_h (letterbox_vars img_h img_w new_shape)) / 2"
  "half_w (letterbox_vars img_h img_w new_shape)
     = of_int (pad_w (letterbox_vars img_h img_w new_shape)) / 2"
  "top (letterbox_vars img_h img_w new_shape)
     = cround (half_h (letterbox_vars img_h img_w new_shape) - 1 / 10)"
  "bottom (letterbox_vars img_h img_w new_shape)
     = cround (half_h (letterbox_vars img_h img_w new_shape) + 1 / 10)"
  "left (letterbox_vars img_h img_w new_shape)
     = cround (half_w (letterbox_vars img_h img_w new_shape) - 1 / 10)"
  "right (letterbox_vars img_h img_w new_shape)
     = cround (half_w (letterbox_vars img_h img_w new_shape) + 1 / 10)"
  by (simp_all add: letterbox_vars_def Let_def)

text \<open>
  C6. For a non-empty source image and a target size, the padding on each axis is split
  into \<open>round(half - 0.1)\<close> on the leading side (top, left) and \<open>round(half + 0.1)\<close>
  on the trailing side (bottom, right), where \<open>half\<close> is half the total padding, the
  target extent minus the resized extent. The leading side never exceeds the trailing
  side, and the two sides sum exactly to the total padding.
\<close>

theorem letterbox_padding_split:
  assumes "length new_shape = 2" and "0 < img_h" and "0 < img_w"
  shows "let v = letterbox_vars img_h img_w new_shape
         in top v = cround (half_h v - 1 / 10) \<and> bottom v = cround (half_h v + 1 / 10)
          \<and> left v = cround (half_w v - 1 / 10) \<and> right v = cround (half_w v + 1 / 10)
          \<and> half_h v = of_int (pad_h v) / 2 \<and> half_w v = of_int (pad_w v) / 2
          \<and> pad_h v = new_shape ! 1 - resize_h v \<and> pad_w v = new_shape ! 0 - resize_w v
          \<and> top v \<le> bottom v \<and> left v \<le> right v
          \<and> top v + bottom v = new_shape ! 1 - resize_h v
          \<and> left v + right v = new_shape ! 0 - resize_w v"
proof -
  define v where "v = letterbox_vars img_h img_w new_shape"
  have f: "top v = cround (half_h v - 1 / 10)" "bottom v = cround (half_h v + 1 / 10)"
    "left v = cround (half_w v - 1 / 10)" "right v = cround (half_w v + 1 / 10)"
    "half_h v = of_int (pad_h v) / 2" "half_w v = of_int (pad_w v) / 2"
    "pad_h v = new_shape ! 1 - resize_h v" "pad_w v = new_shape ! 0 - resize_w v"
    unfolding v_def by (rule letterbox_vars_fields)+
  have le: "top v \<le> bottom v" "left v \<le> right v"
    unfolding f(1-4) f(5,6) by (rule pad_split_le)+
  have "top v + bottom v = pad_h v" "left v + right v = pad_w v"
    unfolding f(1-4) f(5,6) by (rule pad_split_sum)+
  then have sum: "top v + bottom v = new_shape ! 1 - resize_h v"
    "left v + right v = new_shape ! 0 - resize_w v"
    using f(7,8) by simp_all
  show ?thesis
    unfolding Let_def v_def [symmetric] using f le sum by blast
qed

text \<open>A 1280 by 1024 frame: the vertical padding is 83, split into 41 and 42.\<close>

lemma sample_vars:
  "letterbox_vars 1024 1280 [416, 416] =
     \<lparr> scale = 13 / 40, resize_h = 333, resize_w = 416, pad_h = 83, pad_w = 0,
       half_h = 83 / 2, half_w = 0, top = 41, bottom = 42, left = 0, right = 0 \<rparr>"
  by code_simp

theorem letterbox_padding_split_witness:
  "length [416, 416 :: int] = 2 \<and> (0 :: int) < 1024 \<and> (0 :: int) < 1280
   \<and> top (letterbox_vars 1024 1280 [416, 416]) = 41
   \<and> bottom (letterbox_vars 1024 1280 [416, 416]) = 42
   \<and> top (letterbox_vars 1024 1280 [416, 416]) + bottom (letterbox_vars 1024 1280 [416, 416])
       = 416 - resize_h (letterbox_vars 1024 1280 [416, 416])"
  using letterbox_padding_split [of "[416, 416]" 1024 1280]
  by (simp add: Let_def sample_vars)

lemma letterbox_scale_pos:
  assumes "0 < img_h" and "0 < img_w" and "0 < new_shape ! 0" and "0 < new_shape ! 1"
  shows "0 < scale (letterbox_vars img_h img_w new_shape)"
  using assms by (simp add: letterbox_vars_fields(1))

lemma roundtrip_error_eq:
  assumes "scale v \<noteq> 0"
  shows "roundtrip_error v p = (of_int (left v) - half_w v, of_int (top v) - half_h v)"
  using assms
  by (cases p)
     (simp add: roundtrip_error_def forward_scale_pad_def transform_point_def mat_mul_col_def
        letterbox_matrix_def field_simps)

lemma small_square:
  fixes a :: rat
  assumes "\<bar>a\<bar> \<le> 1 / 2"
  shows "a * a \<le> 1 / 4"
proof -
  have "\<bar>a\<bar> * \<bar>a\<bar> \<le> (1 / 2) * (1 / 2)"
    using assms by (intro mult_mono) simp_all
  then show ?thesis by (simp add: abs_mult_self_eq)
qed

lemma roundtrip_any_point:
  assumes "0 < img_h" and "0 < img_w" and "0 < new_shape ! 0" and "0 < new_shape ! 1"
  shows "within_one_pixel (roundtrip_error (letterbox_vars img_h img_w new_shape) p)"
proof -
  define v where "v = letterbox_vars img_h img_w new_shape"
  have s: "scale v \<noteq> 0"
    using letterbox_scale_pos [OF assms] by (simp add: v_def)
  have dx: "\<bar>of_int (left v) - half_w v\<bar> \<le> 1 / 2"
    unfolding v_def letterbox_vars_fields(8) letterbox_vars_fields(5) by (rule pad_split_near)
  have dy: "\<bar>of_int (top v) - half_h v\<bar> \<le> 1 / 2"
    unfolding v_def letterbox_vars_fields(6) letterbox_vars_fields(4) by (rule pad_split_near)
  have "(of_int (left v) - half_w v) * (of_int (left v) - half_w v)
      + (of_int (top v) - half_h v) * (of_int (top v) - half_h v) \<le> 1"
    using small_square [OF dx] small_square [OF dy] by linarith
  then show ?thesis
    unfolding v_def [symmetric] roundtrip_error_eq [OF s] within_one_pixel_def
    using dx dy by simp
qed

text \<open>
  C4. For a non-empty source image and a positive target size, each of the four corners
  of the padded network image, mapped through the matrix the letterbox produces and
  then through the forward scale-then-pad map, comes back within one pixel of itself:
  at most half a pixel on each axis, and within Euclidean distance 1.
\<close>

theorem letterbox_roundtrip:
  assumes "length new_shape = 2" and "0 < img_h" and "0 < img_w"
    and "0 < new_shape ! 0" and "0 < new_shape ! 1"
  shows "list_all (\<lambda>c. within_one_pixel (roundtrip_error (letterbox_vars img_h img_w new_shape) c))
           (net_corners new_shape)"
  using roundtrip_any_point [OF assms(2-5)] by (simp add: net_corners_def)

theorem letterbox_roundtrip_witness:
  "length [416, 416 :: int] = 2 \<and> (0 :: int) < 1024 \<and> (0 :: int) < 1280
   \<and> (0 :: int) < [416, 416] ! 0 \<and> (0 :: int) < [416, 416] ! 1
   \<and> list_all (\<lambda>c. within_one_pixel (roundtrip_error (letterbox_vars 1024 1280 [416, 416]) c))
        (net_corners [416, 416])
   \<and> map (roundtrip_error (letterbox_vars 1024 1280 [416, 416])) (net_corners [416, 416])
       = [(0, - 1 / 2), (0, - 1 / 2), (0, - 1 / 2), (0, - 1 / 2)]"
proof -
  have "map (roundtrip_error (letterbox_vars 1024 1280 [416, 416])) (net_corners [416, 416])
       = [(0, - 1 / 2), (0, - 1 / 2), (0, - 1 / 2), (0, - 1 / 2)]"
    by code_simp
  then show ?thesis
    using letterbox_roundtrip [of "[416, 416]" 1024 1280] by simp
qed

text \<open>
  When \<open>cv_resize\<close> returns an image of the size it is asked for, the letterboxed
  image has exactly the target size.
\<close>

lemma letterbox_output_size:
  assumes "rows (cv_resize img (resize_w (letterbox_vars (rows img) (cols img) new_shape))
                   (resize_h (letterbox_vars (rows img) (cols img) new_shape)))
             = resize_h (letterbox_vars (rows img) (cols img) new_shape)"
    and "cols (cv_resize img (resize_w (letterbox_vars (rows img) (cols img) new_shape))
                   (resize_h (letterbox_vars (rows img) (cols img) new_shape)))
             = resize_w (letterbox_vars (rows img) (cols img) new_shape)"
  shows "rows (fst (letterbox cv_resize img new_shape)) = new_shape ! 1
       \<and> cols (fst (letterbox cv_resize img new_shape)) = new_shape ! 0"
proof -
  define v where "v = letterbox_vars (rows img) (cols img) new_shape"
  have "top v + bottom v = pad_h v" "left v + right v = pad_w v"
    unfolding v_def letterbox_vars_fields(6-9) letterbox_vars_fields(4,5)
    by (rule pad_split_sum)+
  then have "resize_h v + top v + bottom v = new_shape ! 1"
    "resize_w v + left v + right v = new_shape ! 0"
    unfolding v_def by (simp_all add: letterbox_vars_fields(2,3))
  then show ?thesis
    using assms unfolding v_def [symmetric]
    by (simp add: letterbox_def copyMakeBorder_def Let_def v_def [symmetric])
qed

section \<open>Properties of the decoder\<close>

lemma generate_proposals_acc:
  "generate_proposals objs scores rects buf M thr =
     (objs @ map (\<lambda>row. fst (decode_row row M (row ! 8))) (filter (\<lambda>row. thr \<le> row ! 8) buf),
      scores @ map (\<lambda>row. row ! 8) (filter (\<lambda>row. thr \<le> row ! 8) buf),
      rects @ map (\<lambda>row. snd (decode_row row M (row ! 8))) (filter (\<lambda>row. thr \<le> row ! 8) buf))"
  by (induction buf arbitrary: objs scores rects)
     (simp_all add: Let_def not_less split: prod.splits)

lemma decode_row_prob: "prob (fst (decode_row row M c)) = c"
  by (simp add: decode_row_def Let_def)

text \<open>
  C5. On a well-formed output tensor the decoder keeps a row if and only if its
  confidence, read at column 8, is greater than or equal to the confidence threshold:
  the candidates, their scores and their boxes are those of exactly the rows with
  \<open>thr \<le> row ! 8\<close>, in row order. A row whose confidence equals the threshold is
  kept; a row strictly below it is skipped.
\<close>

theorem confidence_cutoff_inclusive:
  assumes "wf_tensor output_buffer"
  shows "generate_proposals [] [] [] output_buffer M thr =
     (let kept = filter (\<lambda>row. thr \<le> row ! 8) output_buffer
      in (map (\<lambda>row. fst (decode_row row M (row ! 8))) kept,
          map (\<lambda>row. row ! 8) kept,
          map (\<lambda>row. snd (decode_row row M (row ! 8))) kept))"
  by (simp add: generate_proposals_acc Let_def)

theorem confidence_cutoff_inclusive_witness:
  "wf_tensor [sample_row 10 10 (3 / 10), sample_row 50 50 (299 / 1000)]
   \<and> fst (snd (generate_proposals [] [] []
        [sample_row 10 10 (3 / 10), sample_row 50 50 (299 / 1000)] identity_matrix (3 / 10)))
       = [3 / 10]"
proof -
  have wf: "wf_tensor [sample_row 10 10 (3 / 10), sample_row 50 50 (299 / 1000)]"
    by (simp add: wf_tensor_def sample_row_def NUM_COLORS_def NUM_CLASSES_def)
  have a: "sample_row 10 10 (3 / 10) ! 8 = 3 / 10"
    and b: "sample_row 50 50 (299 / 1000) ! 8 = 299 / 1000"
    by (simp_all add: sample_row_def)
  show ?thesis
    using wf confidence_cutoff_inclusive [OF wf, of identity_matrix "3 / 10"]
    by (simp add: Let_def a b)
qed

section \<open>Properties of the dispatcher\<close>

text \<open>
  C7. Submitting an empty frame (zero rows or zero columns) resolves to false with no
  event at all: the compiled model is not run, the callback is not invoked, and no
  fault occurs, whatever the state of the detector.
\<close>

theorem push_input_empty_frame:
  assumes "rows rgb_img = 0 \<or> cols rgb_img = 0"
  shows "push_input cv_resize det rgb_img timestamp_nanosec = Inr (False, [])"
  using assms by (auto simp: push_input_def mat_empty_def)

theorem push_input_empty_frame_witness:
  "(rows empty_frame = 0 \<or> cols empty_frame = 0)
   \<and> push_input stub_resize sample_detector empty_frame 7 = Inr (False, [])"
proof -
  have h: "rows empty_frame = 0 \<or> cols empty_frame = 0"
    by (simp add: empty_frame_def)
  show ?thesis
    using h push_input_empty_frame [OF h, of stub_resize sample_detector 7] by simp
qed

text \<open>
  C8. For a non-empty frame submitted to a detector whose model is compiled, the unit
  of work builds the tensor from the letterboxed frame, runs the model on it once, and
  decodes and filters the output. With no callback registered nothing else happens and
  the result is false; with a callback registered it is invoked exactly once, after the
  inference, with the final detections, the timestamp and the original frame, and the
  result is true.
\<close>

theorem push_input_delivery:
  assumes "\<not> mat_empty rgb_img" and "compiled_model det = Some net"
  shows "case letterbox cv_resize rgb_img [INPUT_W, INPUT_H] of
           (resized_img, transform_matrix) \<Rightarrow>
             (let blob = input_blob cv_resize resized_img;
                  objs_result = detect_objs det (net blob) transform_matrix
              in push_input cv_resize det rgb_img timestamp_nanosec =
                   (case infer_callback det of
                      None \<Rightarrow> Inr (False, [Infer blob])
                    | Some cb \<Rightarrow>
                        Inr (True, [Infer blob,
                                    Callback cb objs_result timestamp_nanosec rgb_img])))"
  using assms
  by (simp add: push_input_def process_callback_def Let_def split: prod.splits option.splits)

theorem push_input_delivery_witness:
  "\<not> mat_empty sample_frame \<and> compiled_model sample_detector = Some stub_model
   \<and> (\<exists>blob objs.
        push_input stub_resize sample_detector sample_frame 7
          = Inr (True, [Infer blob, Callback 0 objs 7 sample_frame])
      \<and> push_input stub_resize (set_callback sample_detector None) sample_frame 7
          = Inr (False, [Infer blob]))"
proof -
  have h1: "\<not> mat_empty sample_frame"
    by (simp add: mat_empty_def sample_frame_def)
  have h2: "compiled_model sample_detector = Some stub_model"
    by (simp add: sample_detector_def)
  have h3: "compiled_model (set_callback sample_detector None) = Some stub_model"
    by (simp add: sample_detector_def set_callback_def)
  have c1: "infer_callback sample_detector = Some 0"
    by (simp add: sample_detector_def)
  have c2: "infer_callback (set_callback sample_detector None) = None"
    by (simp add: set_callback_def)
  show ?thesis
    using h1 h2
      push_input_delivery [OF h1 h2, of stub_resize 7]
      push_input_delivery [OF h1 h3, of stub_resize 7]
    by (auto simp: Let_def c1 c2 split: prod.splits)
qed

lemma input_blob_eq:
  assumes "rows resized_img = INPUT_H" and "cols resized_img = INPUT_W"
  shows "input_blob cv_resize resized_img =
     [map (\<lambda>c. map (map (\<lambda>p. of_nat (unat (channel (2 - c) p)))) (pix resized_img)) [0, 1, 2]]"
  using assms by (simp add: input_blob_def blobFromImage_def Let_def)

lemma pixel_range: "0 \<le> (of_nat (unat (w :: 8 word)) :: rat) \<and> (of_nat (unat w) :: rat) \<le> 255"
proof -
  have "unat w < 2 ^ 8"
    using unsigned_less [of w, where 'a = nat] by simp
  then have "unat w \<le> 255" by simp
  then have "(of_nat (unat w) :: rat) \<le> of_nat 255"
    by (simp only: of_nat_le_iff)
  then have hi: "(of_nat (unat w) :: rat) \<le> 255"
    by (simp only: of_nat_numeral)
  have lo: "0 \<le> (of_nat (unat w) :: rat)"
    by (rule of_nat_0_le_iff)
  from lo hi show ?thesis by (rule conjI)
qed

text \<open>
  C10. For a letterboxed image (one that already has the network input size), the
  input tensor has a leading batch dimension of 1 and three planes, and the entry of
  plane \<open>c\<close> at row \<open>y\<close>, column \<open>x\<close> is the value of channel \<open>2 - c\<close> of the pixel at
  \<open>(y, x)\<close>, unchanged: the scale factor is 1 and the mean is zero, so every entry stays
  in the range 0 to 255; only the channel order is swapped and the layout made planar.
\<close>

theorem input_blob_unscaled:
  assumes "rows resized_img = INPUT_H" and "cols resized_img = INPUT_W"
  shows "let blob = input_blob cv_resize resized_img
         in length blob = 1 \<and> length (blob ! 0) = 3
          \<and> (\<forall>c < 3. length (blob ! 0 ! c) = length (pix resized_img)
               \<and> (\<forall>y < length (pix resized_img).
                     length (blob ! 0 ! c ! y) = length (pix resized_img ! y)
                   \<and> (\<forall>x < length (pix resized_img ! y).
                         blob ! 0 ! c ! y ! x
                           = of_nat (unat (channel (2 - c) (pix resized_img ! y ! x)))
                       \<and> 0 \<le> blob ! 0 ! c ! y ! x \<and> blob ! 0 ! c ! y ! x \<le> 255)))"
proof -
  have three: "c = 0 \<or> c = 1 \<or> c = 2" if "c < 3" for c :: nat
    using that by arith
  show ?thesis
    unfolding Let_def input_blob_eq [OF assms]
    using pixel_range by (auto dest!: three)
qed

theorem input_blob_unscaled_witness:
  "rows gray_image = INPUT_H \<and> cols gray_image = INPUT_W
   \<and> input_blob stub_resize gray_image ! 0 ! 0 ! 5 ! 7 = 30
   \<and> input_blob stub_resize gray_image ! 0 ! 1 ! 5 ! 7 = 20
   \<and> input_blob stub_resize gray_image ! 0 ! 2 ! 5 ! 7 = 10"
proof -
  have h1: "rows gray_image = INPUT_H" and h2: "cols gray_image = INPUT_W"
    by (simp_all add: gray_image_def INPUT_H_def INPUT_W_def)
  have p: "length (pix gray_image) = 416" "pix gray_image ! 5 = replicate 416 (10, 20, 30)"
    by (simp_all add: gray_image_def)
  show ?thesis
    using h1 h2 input_blob_unscaled [OF h1 h2, of stub_resize]
    by (simp add: Let_def p channel_def)
qed

section \<open>The final detection list\<close>

text \<open>
  What the loop of lines 244 to 246 computes: the first \<open>length indices\<close> candidates,
  in row order. The filter never returns more indices than there are candidates, and
  every candidate has passed the confidence cutoff.
\<close>

lemma fold_snoc_map: "fold (\<lambda>i acc. acc @ [f i]) is acc = acc @ map f is"
  by (induction "is" arbitrary: acc) simp_all

lemma collect_results_eq:
  "collect_results objs_tmp indices = map (\<lambda>i. objs_tmp ! i) [0..<length indices]"
  by (simp add: collect_results_def fold_snoc_map)

lemma collect_results_take:
  assumes "length indices \<le> length objs_tmp"
  shows "collect_results objs_tmp indices = take (length indices) objs_tmp"
  unfolding collect_results_eq using assms by (intro nth_equalityI) simp_all

lemma nms_greedy_length:
  "length (nms_greedy bboxes thr k remaining indices) \<le> length remaining + length indices"
proof (induction bboxes thr k remaining indices rule: nms_greedy.induct)
  case (1 bboxes thr k remaining indices)
  show ?case
  proof (cases "k \<le> int (length indices)")
    case True
    then show ?thesis by (subst nms_greedy.simps) simp
  next
    case False
    show ?thesis
    proof (cases remaining)
      case Nil
      then show ?thesis using False by (subst nms_greedy.simps) simp
    next
      case (Cons i rest)
      let ?rest = "filter (\<lambda>j. \<not> thr < rect_iou (bboxes ! i) (bboxes ! j)) rest"
      have "length (nms_greedy bboxes thr k ?rest (indices @ [i]))
              \<le> length ?rest + length (indices @ [i])"
        using "1" [OF False Cons] .
      also have "\<dots> \<le> length rest + Suc (length indices)"
        by (simp add: add_mono)
      finally show ?thesis
        using False Cons by (subst nms_greedy.simps) simp
    qed
  qed
qed

lemma NMSBoxes_length:
  "length (NMSBoxes bboxes scores score_threshold thr k) \<le> length scores"
proof -
  let ?cands = "filter (\<lambda>i. \<not> scores ! i < score_threshold) [0..<length scores]"
  have "length (nms_greedy bboxes thr k (sort_key (\<lambda>i. - (scores ! i)) ?cands) [])
          \<le> length (sort_key (\<lambda>i. - (scores ! i)) ?cands) + length ([] :: nat list)"
    by (rule nms_greedy_length)
  also have "\<dots> = length ?cands"
    by simp
  also have "\<dots> \<le> length [0..<length scores]"
    by (rule length_filter_le)
  finally show ?thesis by (simp add: NMSBoxes_def)
qed

lemma detect_objs_prefix:
  "detect_objs det output_buffer M =
     take (length (detect_indices det output_buffer M))
       (fst (generate_proposals [] [] [] output_buffer M (conf_threshold det)))"
proof -
  obtain objs scores rects where
    g: "generate_proposals [] [] [] output_buffer M (conf_threshold det) = (objs, scores, rects)"
    by (cases "generate_proposals [] [] [] output_buffer M (conf_threshold det)")
  have "length scores = length objs"
    using g by (auto simp: generate_proposals_acc)
  then have "length (NMSBoxes rects scores (conf_threshold det) (nms_threshold det) (top_k det))
               \<le> length objs"
    using NMSBoxes_length [of rects scores] by simp
  then show ?thesis
    by (simp add: detect_objs_def detect_indices_def g Let_def collect_results_take)
qed

lemma detect_objs_confident:
  assumes "obj \<in> set (detect_objs det output_buffer M)"
  shows "conf_threshold det \<le> prob obj"
proof -
  have "obj \<in> set (fst (generate_proposals [] [] [] output_buffer M (conf_threshold det)))"
    using assms unfolding detect_objs_prefix by (rule in_set_takeD)
  then show ?thesis
    by (auto simp: generate_proposals_acc decode_row_prob)
qed

text \<open>
  The cap of the filter: with a maximum \<open>k\<close> the filter emits the first \<open>k\<close> indices of
  what it emits without a cap. So when more candidates survive suppression than the
  maximum allows, exactly the maximum count of detections is delivered.
\<close>

lemma nms_greedy_prefix:
  "take (length indices) (nms_greedy bboxes thr k remaining indices) = indices"
proof (induction bboxes thr k remaining indices rule: nms_greedy.induct)
  case (1 bboxes thr k remaining indices)
  show ?case
  proof (cases "k \<le> int (length indices)")
    case True
    then show ?thesis by (subst nms_greedy.simps) simp
  next
    case False
    show ?thesis
    proof (cases remaining)
      case Nil
      then show ?thesis using False by (subst nms_greedy.simps) simp
    next
      case (Cons i rest)
      let ?rest = "filter (\<lambda>j. \<not> thr < rect_iou (bboxes ! i) (bboxes ! j)) rest"
      have "take (length (indices @ [i])) (nms_greedy bboxes thr k ?rest (indices @ [i]))
              = indices @ [i]"
        using "1" [OF False Cons] .
      then have "take (length indices)
                   (take (length (indices @ [i])) (nms_greedy bboxes thr k ?rest (indices @ [i])))
              = take (length indices) (indices @ [i])"
        by (rule arg_cong)
      then have "take (length indices) (nms_greedy bboxes thr k ?rest (indices @ [i])) = indices"
        by (simp add: min_def)
      then show ?thesis
        using False Cons by (subst nms_greedy.simps) simp
    qed
  qed
qed

lemma nms_greedy_cap:
  assumes "int (length remaining + length indices) \<le> K" and "int (length indices) \<le> k"
  shows "nms_greedy bboxes thr k remaining indices
           = take (nat k) (nms_greedy bboxes thr K remaining indices)"
  using assms
proof (induction bboxes thr k remaining indices rule: nms_greedy.induct)
  case (1 bboxes thr k remaining indices)
  show ?case
  proof (cases "k \<le> int (length indices)")
    case True
    with "1.prems" have k: "nat k = length indices" by simp
    show ?thesis
      unfolding k nms_greedy_prefix using True by (subst nms_greedy.simps) simp
  next
    case False
    show ?thesis
    proof (cases remaining)
      case Nil
      have "nms_greedy bboxes thr K [] indices = indices"
        by (subst nms_greedy.simps) simp
      then show ?thesis
        using False Nil by (subst nms_greedy.simps) simp
    next
      case (Cons i rest)
      let ?rest = "filter (\<lambda>j. \<not> thr < rect_iou (bboxes ! i) (bboxes ! j)) rest"
      have len: "int (length ?rest + length (indices @ [i])) \<le> K"
      proof -
        have a: "length ?rest \<le> length rest"
          by (rule length_filter_le)
        have b: "int (length rest) + 1 + int (length indices) \<le> K"
          using "1.prems"(1) Cons by simp
        have c: "length (indices @ [i]) = length indices + 1"
          by simp
        show ?thesis
          unfolding c using a b by linarith
      qed
      have idx: "int (length (indices @ [i])) \<le> k"
        using False by simp
      have K: "\<not> K \<le> int (length indices)"
        using "1.prems"(1) Cons by simp
      have "nms_greedy bboxes thr k ?rest (indices @ [i])
              = take (nat k) (nms_greedy bboxes thr K ?rest (indices @ [i]))"
        using "1.IH" [OF False Cons len idx] .
      moreover have "nms_greedy bboxes thr k remaining indices
              = nms_greedy bboxes thr k ?rest (indices @ [i])"
        using False Cons by (subst nms_greedy.simps) simp
      moreover have "nms_greedy bboxes thr K remaining indices
              = nms_greedy bboxes thr K ?rest (indices @ [i])"
        using K Cons by (subst nms_greedy.simps) simp
      ultimately show ?thesis by simp
    qed
  qed
qed

lemma NMSBoxes_cap:
  assumes "0 \<le> k" and "int (length scores) \<le> K"
  shows "NMSBoxes bboxes scores st thr k = take (nat k) (NMSBoxes bboxes scores st thr K)"
proof -
  let ?cands = "sort_key (\<lambda>i. - (scores ! i))
                  (filter (\<lambda>i. \<not> scores ! i < st) [0..<length scores])"
  have "length ?cands \<le> length [0..<length scores]"
    unfolding length_sort by (rule length_filter_le)
  then have "int (length ?cands + length ([] :: nat list)) \<le> K"
    using assms(2) by simp
  moreover have "int (length ([] :: nat list)) \<le> k"
    using assms(1) by simp
  ultimately show ?thesis
    unfolding NMSBoxes_def by (rule nms_greedy_cap)
qed

lemma detect_objs_count:
  assumes "0 \<le> top_k det" and "int (length output_buffer) \<le> K"
    and "nat (top_k det) < length (detect_indices (det\<lparr> top_k := K \<rparr>) output_buffer M)"
  shows "length (detect_objs det output_buffer M) = nat (top_k det)"
proof -
  obtain objs scores rects where
    g: "generate_proposals [] [] [] output_buffer M (conf_threshold det) = (objs, scores, rects)"
    by (cases "generate_proposals [] [] [] output_buffer M (conf_threshold det)")
  have len: "length scores = length objs" "length scores \<le> length output_buffer"
    using g by (auto simp: generate_proposals_acc)
  have K: "int (length scores) \<le> K"
    using len(2) assms(2) by simp
  have "detect_indices det output_buffer M
          = take (nat (top_k det)) (detect_indices (det\<lparr> top_k := K \<rparr>) output_buffer M)"
    using NMSBoxes_cap [OF assms(1) K, of rects "conf_threshold det" "nms_threshold det"]
    by (simp add: detect_indices_def g)
  then have "length (detect_indices det output_buffer M) = nat (top_k det)"
    using assms(3) by simp
  moreover have "length (detect_objs det output_buffer M)
                   = length (detect_indices det output_buffer M)"
  proof -
    have "length (detect_indices det output_buffer M) \<le> length objs"
      using NMSBoxes_length [of rects scores] len(1) by (simp add: detect_indices_def g)
    then show ?thesis
      by (simp add: detect_objs_prefix g)
  qed
  ultimately show ?thesis by simp
qed

text \<open>
  Two rows with the same box: whatever box with non-negative sides the two rows get,
  the filter keeps the row of higher confidence and suppresses the other.
\<close>

lemma rect_iou_self:
  assumes "0 \<le> rect_width r" and "0 \<le> rect_height r"
  shows "rect_iou r r = 1"
  using assms by (simp add: rect_iou_def rect_inter_area_def rect_area_def Let_def)

lemma NMSBoxes_coincident:
  assumes "0 \<le> rect_width r" and "0 \<le> rect_height r"
  shows "NMSBoxes [r, r] [1 / 2, 9 / 10] (3 / 10) (1 / 2) 5 = [1]"
proof -
  have cands: "filter (\<lambda>i. \<not> [1 / 2, 9 / 10 :: rat] ! i < 3 / 10) [0..<length [1 / 2, 9 / 10 :: rat]]
                 = [0, 1]"
    by code_simp
  have sorted: "sort_key (\<lambda>i. - ([1 / 2, 9 / 10 :: rat] ! i)) [0, 1] = [1, 0]"
    by code_simp
  show ?thesis
    unfolding NMSBoxes_def cands sorted
    by (simp add: nms_greedy.simps rect_iou_self [OF assms])
qed

text \<open>
  C9. The specification asks that each of the four stores \<open>obj.pts[0]\<close> to \<open>obj.pts[3]\<close> be in
  bounds, the point list having size at least 4 when it is written. In the code the
  list has only been reserved: at the moment index \<open>k\<close> is written, for each \<open>k\<close> from 0
  to 3 and whatever the points, its capacity is 4 and its size is 0, so the store is
  out of bounds; the list still has no element when the bounding box is taken.
\<close>

theorem obj_pts_store_out_of_bounds:
  "map (\<lambda>(k, v). (k, vsize v, capacity v, in_bounds v k))
     (zip [0, 1, 2, 3] (obj_pts_states p0 p1 p2 p3))
     = [(0, 0, 4, False), (1, 0, 4, False), (2, 0, 4, False), (3, 0, 4, False)]
   \<and> vec_elems (pts (fst (decode_row row M c))) = []"
  by (simp add: obj_pts_states_def decode_row_def Let_def reserve_def vec_new_def vec_store_def
        capacity_def in_bounds_def vec_elems_def)

text \<open>
  C1. The specification asks that the \<open>k\<close>-th delivered detection be the candidate at the
  filter's \<open>k\<close>-th emitted index. Two boxes that do not suppress each other, the second
  with the higher confidence: the filter emits the indices 1, 0, and the loop delivers
  candidates 0, 1, in row order, so the first delivered detection is not the candidate
  at the first emitted index.
\<close>

theorem collect_results_ignores_indices:
  "(let output_buffer = [sample_row 10 10 (1 / 2), sample_row 100 100 (9 / 10)];
        det = sample_detector\<lparr> nms_threshold := 1 \<rparr>;
        objs_tmp = fst (generate_proposals [] [] [] output_buffer identity_matrix
                          (conf_threshold det));
        indices = detect_indices det output_buffer identity_matrix
    in indices = [1, 0]
     \<and> map prob objs_tmp = [1 / 2, 9 / 10]
     \<and> map prob (collect_results objs_tmp indices) = [1 / 2, 9 / 10]
     \<and> map (\<lambda>k. prob (objs_tmp ! (indices ! k))) [0, 1] = [9 / 10, 1 / 2]
     \<and> collect_results objs_tmp indices ! 0 \<noteq> objs_tmp ! (indices ! 0))"
  by code_simp

text \<open>
  C2. The specification asks that every emitted detection belong to a row that survived the
  overlap suppression. Two rows with the same quadrilateral, confidence 0.5 and 0.9:
  the filter keeps index 1 only, row 0 being suppressed by row 1, and the one detection
  delivered is that of row 0, with confidence 0.5.
\<close>

theorem suppressed_row_is_emitted:
  "(let output_buffer = [sample_row 10 10 (1 / 2), sample_row 10 10 (9 / 10)];
        det = sample_detector;
        objs_tmp = fst (generate_proposals [] [] [] output_buffer identity_matrix
                          (conf_threshold det))
    in map prob objs_tmp = [1 / 2, 9 / 10]
     \<and> detect_indices det output_buffer identity_matrix = [1]
     \<and> map prob (detect_objs det output_buffer identity_matrix) = [1 / 2])"
  by code_simp

text \<open>
  C3. The specification asks that, with more survivors than the maximum, the delivered
  detections be the top ones by confidence. Three rows of confidence 0.5, 0.9 and 0.7,
  none suppressed, and a maximum of 2: the filter emits the indices 1, 2, and the two
  detections delivered are those of rows 0 and 1, of confidence 0.5 and 0.9, rather than
  0.9 and 0.7.
\<close>

theorem top_k_keeps_first_rows:
  "(let output_buffer = [sample_row 10 10 (1 / 2), sample_row 100 100 (9 / 10),
                         sample_row 200 200 (7 / 10)];
        det = sample_detector\<lparr> top_k := 2, nms_threshold := 1 \<rparr>;
        objs_tmp = fst (generate_proposals [] [] [] output_buffer identity_matrix
                          (conf_threshold det))
    in map prob objs_tmp = [1 / 2, 9 / 10, 7 / 10]
     \<and> detect_indices (det\<lparr> top_k := 3 \<rparr>) output_buffer identity_matrix = [1, 2, 0]
     \<and> detect_indices det output_buffer identity_matrix = [1, 2]
     \<and> map prob (detect_objs det output_buffer identity_matrix) = [1 / 2, 9 / 10])"
  by code_simp

end
